theory Spec2Isabelle
  imports Main "HOL-Library.Word"
begin

section \<open>The schema\<close>

text \<open>
  The five relations of the migration, one record per row type. A \<open>uuid\<close> column is a
  natural number; a \<open>timestamptz\<close> column is an instant in microseconds, the resolution
  the column stores; a \<open>text\<close> column is a JavaScript string: a list of UTF-16 code
  units. Field names carry the table's initial, since two tables share column names.
\<close>

type_synonym uuid = nat
type_synonym timestamptz = int
type_synonym js_string = "16 word list"

record profile =
  p_id :: uuid
  p_email :: js_string
  p_display_name :: js_string
  p_avatar_url :: "js_string option"
  p_status :: js_string
  p_created_at :: timestamptz
  p_updated_at :: timestamptz

record contact =
  ct_id :: uuid
  ct_user_id :: uuid
  ct_contact_id :: uuid
  ct_created_at :: timestamptz

datatype conversation_type = Private | Group

record conversation =
  c_id :: uuid
  c_type :: conversation_type
  c_name :: "js_string option"
  c_created_by :: uuid
  c_created_at :: timestamptz
  c_updated_at :: timestamptz

record conversation_participant =
  cp_id :: uuid
  cp_conversation_id :: uuid
  cp_user_id :: uuid
  cp_joined_at :: timestamptz
  cp_last_read_at :: "timestamptz option"

record message =
  m_id :: uuid
  m_conversation_id :: uuid
  m_sender_id :: uuid
  m_content :: js_string
  m_created_at :: timestamptz
  m_updated_at :: timestamptz

text \<open>
  The store: the tables in insertion order, the next value of \<open>gen_random_uuid()\<close> and the
  value of \<open>now()\<close>.
\<close>

record store =
  profiles :: "profile list"
  contacts :: "contact list"
  conversations :: "conversation list"
  conversation_participants :: "conversation_participant list"
  messages :: "message list"
  next_uuid :: uuid
  clock :: timestamptz

text \<open>
  The errors of a statement: 42P17 (infinite recursion detected in policy), 42501 (the new
  row violates row level security), and the violations of a constraint.
\<close>

datatype pg_error =
  InfiniteRecursion | RlsViolation | UniqueViolation | ForeignKeyViolation | CheckViolation

section \<open>Row level security\<close>

subsection \<open>The expressions of the policies\<close>

text \<open>
  Every policy is \<open>TO authenticated\<close>: the caller always has an identity, \<open>auth.uid()\<close>,
  the first argument below. Here an expression's sub-select is a search of the table it
  names; what the store makes of a sub-select when it runs a statement comes next.
\<close>

definition exists_participant :: "store \<Rightarrow> uuid \<Rightarrow> uuid \<Rightarrow> bool" where
  \<comment> \<open>\<open>EXISTS (SELECT 1 FROM conversation_participants WHERE conversation_id = c AND user_id = u)\<close>\<close>
  "exists_participant db c u =
     list_ex (\<lambda>cp. cp_conversation_id cp = c \<and> cp_user_id cp = u) (conversation_participants db)"

definition contacts_select_using :: "uuid \<Rightarrow> store \<Rightarrow> contact \<Rightarrow> bool" where
  \<comment> \<open>Users can view own contacts\<close>
  "contacts_select_using uid db row = (uid = ct_user_id row)"

definition contacts_insert_check :: "uuid \<Rightarrow> store \<Rightarrow> contact \<Rightarrow> bool" where
  \<comment> \<open>Users can add own contacts\<close>
  "contacts_insert_check uid db row = (uid = ct_user_id row)"

definition conversations_select_using :: "uuid \<Rightarrow> store \<Rightarrow> conversation \<Rightarrow> bool" where
  \<comment> \<open>Users can view their conversations\<close>
  "conversations_select_using uid db row = exists_participant db (c_id row) uid"

definition conversations_insert_check :: "uuid \<Rightarrow> store \<Rightarrow> conversation \<Rightarrow> bool" where
  \<comment> \<open>Users can create conversations\<close>
  "conversations_insert_check uid db row = (uid = c_created_by row)"

definition participants_select_using :: "uuid \<Rightarrow> store \<Rightarrow> conversation_participant \<Rightarrow> bool" where
  \<comment> \<open>Users can view participants in their conversations\<close>
  "participants_select_using uid db row = exists_participant db (cp_conversation_id row) uid"

definition participants_insert_check :: "uuid \<Rightarrow> store \<Rightarrow> conversation_participant \<Rightarrow> bool" where
  \<comment> \<open>Conversation creators can add participants\<close>
  "participants_insert_check uid db row =
     list_ex (\<lambda>c. c_id c = cp_conversation_id row \<and> c_created_by c = uid) (conversations db)"

definition messages_select_using :: "uuid \<Rightarrow> store \<Rightarrow> message \<Rightarrow> bool" where
  \<comment> \<open>Users can view messages in their conversations\<close>
  "messages_select_using uid db row = exists_participant db (m_conversation_id row) uid"

definition messages_insert_check :: "uuid \<Rightarrow> store \<Rightarrow> message \<Rightarrow> bool" where
  \<comment> \<open>Users can send messages to their conversations\<close>
  "messages_insert_check uid db row =
     (uid = m_sender_id row \<and> exists_participant db (m_conversation_id row) uid)"

subsection \<open>Sub-selects under row level security\<close>

text \<open>
  A sub-select of a policy runs as the caller, so the table it reads is itself under its
  \<open>SELECT\<close> policy. The tables each policy sub-selects from:
\<close>

datatype table = Profiles | Contacts | Conversations | ConversationParticipants | Messages

fun select_policy_subselects :: "table \<Rightarrow> table list" where
  "select_policy_subselects Profiles = []"
| "select_policy_subselects Contacts = []"
| "select_policy_subselects Conversations = [ConversationParticipants]"
| "select_policy_subselects ConversationParticipants = [ConversationParticipants]"
| "select_policy_subselects Messages = [ConversationParticipants]"

fun insert_check_subselects :: "table \<Rightarrow> table list" where
  "insert_check_subselects Profiles = []"
| "insert_check_subselects Contacts = []"
| "insert_check_subselects Conversations = []"
| "insert_check_subselects ConversationParticipants = [Conversations]"
| "insert_check_subselects Messages = [ConversationParticipants]"

text \<open>
  Before it runs a statement the store adds to each table the statement reads that
  table's \<open>SELECT\<close> policy, and goes on into the sub-selects of the policy it has added.
  \<open>active\<close> holds the tables whose policies are being added; a table met again while it
  is there is an infinite recursion, and the statement ends with error 42P17.
\<close>

function rls_ok :: "table list \<Rightarrow> table \<Rightarrow> bool" where
  "rls_ok active t =
     (if t \<in> set active then False
      else list_all (rls_ok (t # active)) (select_policy_subselects t))"
  by pat_completeness auto
termination
proof (relation "measure (\<lambda>(active, t). card (UNIV - set active))")
  show "wf (measure (\<lambda>(active, t). card (UNIV - set active)))" by simp
next
  fix active :: "table list" and t x :: table
  assume "t \<notin> set active"
  have "UNIV = {Profiles, Contacts, Conversations, ConversationParticipants, Messages}"
    by (auto intro: table.exhaust)
  then have fin: "finite (UNIV :: table set)" by (metis finite.emptyI finite.insertI)
  from \<open>t \<notin> set active\<close> have "UNIV - set (t # active) \<subset> UNIV - set active" by auto
  with fin have "card (UNIV - set (t # active)) < card (UNIV - set active)"
    by (intro psubset_card_mono) auto
  then show "((t # active, x), (active, t)) \<in> measure (\<lambda>(active, t). card (UNIV - set active))"
    by simp
qed

declare rls_ok.simps [simp del]

definition select_allowed :: "table \<Rightarrow> bool" where
  \<comment> \<open>a \<open>SELECT\<close> from \<open>t\<close>\<close>
  "select_allowed t = rls_ok [] t"

definition insert_allowed :: "table \<Rightarrow> bool \<Rightarrow> bool" where
  \<comment> \<open>an \<open>INSERT\<close> into \<open>t\<close>: the sub-selects of its \<open>WITH CHECK\<close>, and with \<open>RETURNING\<close> those of
     the \<open>SELECT\<close> policy, which then applies to the new row\<close>
  "insert_allowed t returning =
     (list_all (rls_ok [t]) (insert_check_subselects t) \<and>
      (if returning then list_all (rls_ok [t]) (select_policy_subselects t) else True))"

section \<open>Statements of the store\<close>

text \<open>
  A \<open>SELECT\<close> fails when its policies cannot be added; otherwise it returns the rows its
  policy lets the caller see.
\<close>

definition select_profiles :: "uuid \<Rightarrow> store \<Rightarrow> pg_error + profile list" where
  \<comment> \<open>Users can view all profiles: \<open>USING (true)\<close>\<close>
  "select_profiles uid db =
     (if select_allowed Profiles then Inr (profiles db) else Inl InfiniteRecursion)"

definition select_conversations :: "uuid \<Rightarrow> store \<Rightarrow> pg_error + conversation list" where
  "select_conversations uid db =
     (if select_allowed Conversations
      then Inr (filter (conversations_select_using uid db) (conversations db))
      else Inl InfiniteRecursion)"

definition select_conversation_participants ::
  "uuid \<Rightarrow> store \<Rightarrow> pg_error + conversation_participant list" where
  "select_conversation_participants uid db =
     (if select_allowed ConversationParticipants
      then Inr (filter (participants_select_using uid db) (conversation_participants db))
      else Inl InfiniteRecursion)"

definition select_messages :: "uuid \<Rightarrow> store \<Rightarrow> pg_error + message list" where
  "select_messages uid db =
     (if select_allowed Messages
      then Inr (filter (messages_select_using uid db) (messages db))
      else Inl InfiniteRecursion)"

definition rows_of :: "pg_error + 'a list \<Rightarrow> 'a list" where
  \<comment> \<open>the rows a caller receives: none from a statement that failed\<close>
  "rows_of r = (case r of Inl e \<Rightarrow> [] | Inr rows \<Rightarrow> rows)"

text \<open>
  An \<open>INSERT\<close> of one row: the policies are added, then the row passes the policy's
  \<open>WITH CHECK\<close> and the table's constraints (\<open>CHECK\<close>, primary key and \<open>UNIQUE\<close>, foreign
  keys). A rejected statement leaves the tables as they were.
\<close>

definition has_profile :: "store \<Rightarrow> uuid \<Rightarrow> bool" where
  "has_profile db u = list_ex (\<lambda>p. p_id p = u) (profiles db)"

definition has_conversation :: "store \<Rightarrow> uuid \<Rightarrow> bool" where
  "has_conversation db c = list_ex (\<lambda>r. c_id r = c) (conversations db)"

definition messages_insert_row :: "uuid \<Rightarrow> message \<Rightarrow> store \<Rightarrow> pg_error option \<times> store" where
  "messages_insert_row uid row db =
     (if \<not> insert_allowed Messages False then (Some InfiniteRecursion, db)
      else if \<not> messages_insert_check uid db row then (Some RlsViolation, db)
      else if list_ex (\<lambda>m. m_id m = m_id row) (messages db) then (Some UniqueViolation, db)
      else if \<not> (has_conversation db (m_conversation_id row) \<and> has_profile db (m_sender_id row))
        then (Some ForeignKeyViolation, db)
      else (None, db\<lparr>messages := messages db @ [row]\<rparr>))"

definition contacts_insert_row :: "uuid \<Rightarrow> contact \<Rightarrow> store \<Rightarrow> pg_error option \<times> store" where
  "contacts_insert_row uid row db =
     (if \<not> insert_allowed Contacts False then (Some InfiniteRecursion, db)
      else if \<not> contacts_insert_check uid db row then (Some RlsViolation, db)
      else if ct_user_id row = ct_contact_id row then (Some CheckViolation, db)
      else if list_ex (\<lambda>c. ct_id c = ct_id row \<or>
                 (ct_user_id c = ct_user_id row \<and> ct_contact_id c = ct_contact_id row)) (contacts db)
        then (Some UniqueViolation, db)
      else if \<not> (has_profile db (ct_user_id row) \<and> has_profile db (ct_contact_id row))
        then (Some ForeignKeyViolation, db)
      else (None, db\<lparr>contacts := contacts db @ [row]\<rparr>))"

text \<open>
  With \<open>RETURNING\<close> the new row has to pass the \<open>SELECT\<close> policy as well.
\<close>

definition conversations_insert_row ::
  "uuid \<Rightarrow> bool \<Rightarrow> conversation \<Rightarrow> store \<Rightarrow> pg_error option \<times> store" where
  "conversations_insert_row uid returning row db =
     (if \<not> insert_allowed Conversations returning then (Some InfiniteRecursion, db)
      else if \<not> conversations_insert_check uid db row then (Some RlsViolation, db)
      else if returning \<and> \<not> conversations_select_using uid db row then (Some RlsViolation, db)
      else if list_ex (\<lambda>c. c_id c = c_id row) (conversations db) then (Some UniqueViolation, db)
      else if \<not> has_profile db (c_created_by row) then (Some ForeignKeyViolation, db)
      else (None, db\<lparr>conversations := conversations db @ [row]\<rparr>))"

definition participants_insert_row ::
  "uuid \<Rightarrow> conversation_participant \<Rightarrow> store \<Rightarrow> pg_error option \<times> store" where
  "participants_insert_row uid row db =
     (if \<not> insert_allowed ConversationParticipants False then (Some InfiniteRecursion, db)
      else if \<not> participants_insert_check uid db row then (Some RlsViolation, db)
      else if list_ex (\<lambda>cp. cp_id cp = cp_id row \<or>
                 (cp_conversation_id cp = cp_conversation_id row \<and> cp_user_id cp = cp_user_id row))
               (conversation_participants db)
        then (Some UniqueViolation, db)
      else if \<not> (has_conversation db (cp_conversation_id row) \<and> has_profile db (cp_user_id row))
        then (Some ForeignKeyViolation, db)
      else (None, db\<lparr>conversation_participants := conversation_participants db @ [row]\<rparr>))"

text \<open>
  An \<open>INSERT\<close> of several rows takes them in order; the first rejected row rejects the
  statement.
\<close>

fun participants_insert_rows ::
  "uuid \<Rightarrow> conversation_participant list \<Rightarrow> store \<Rightarrow> pg_error + store" where
  "participants_insert_rows uid [] db =
     (if insert_allowed ConversationParticipants False then Inr db else Inl InfiniteRecursion)"
| "participants_insert_rows uid (row # rows) db =
     (case participants_insert_row uid row db of
        (Some e, _) \<Rightarrow> Inl e
      | (None, db1) \<Rightarrow> participants_insert_rows uid rows db1)"

section \<open>The client\<close>

text \<open>
  A request of the client resolves to a response \<open>{ data, error }\<close> and is read so
  (\<open>const { data: newConv, error: convError } = await ...\<close>): a failed statement sets
  \<open>error\<close>, leaves \<open>data\<close> null and throws nothing. Columns the client leaves out take
  their defaults, \<open>gen_random_uuid()\<close> and \<open>now()\<close>.
\<close>

definition insert_contact :: "uuid \<Rightarrow> uuid \<Rightarrow> uuid \<Rightarrow> store \<Rightarrow> pg_error option \<times> store" where
  \<comment> \<open>\<open>supabase.from('contacts').insert({ user_id, contact_id })\<close>\<close>
  "insert_contact uid user_id contact_id db =
     contacts_insert_row uid
       \<lparr>ct_id = next_uuid db, ct_user_id = user_id, ct_contact_id = contact_id,
        ct_created_at = clock db\<rparr>
       (db\<lparr>next_uuid := Suc (next_uuid db)\<rparr>)"

definition insert_message ::
  "uuid \<Rightarrow> uuid \<Rightarrow> uuid \<Rightarrow> js_string \<Rightarrow> store \<Rightarrow> pg_error option \<times> store" where
  \<comment> \<open>\<open>supabase.from('messages').insert({ conversation_id, sender_id, content })\<close>\<close>
  "insert_message uid conversation_id sender_id content db =
     messages_insert_row uid
       \<lparr>m_id = next_uuid db, m_conversation_id = conversation_id, m_sender_id = sender_id,
        m_content = content, m_created_at = clock db, m_updated_at = clock db\<rparr>
       (db\<lparr>next_uuid := Suc (next_uuid db)\<rparr>)"

definition new_conversation ::
  "conversation_type \<Rightarrow> js_string option \<Rightarrow> uuid \<Rightarrow> store \<Rightarrow> conversation" where
  \<comment> \<open>the row of \<open>{ type, name, created_by }\<close> with its defaults\<close>
  "new_conversation type name created_by db =
     \<lparr>c_id = next_uuid db, c_type = type, c_name = name, c_created_by = created_by,
      c_created_at = clock db, c_updated_at = clock db\<rparr>"

definition insert_conversation ::
  "uuid \<Rightarrow> conversation_type \<Rightarrow> js_string option \<Rightarrow> uuid \<Rightarrow> store \<Rightarrow>
   (pg_error + conversation) \<times> store" where
  \<comment> \<open>\<open>supabase.from('conversations').insert({ type, name, created_by }).select().single()\<close>:
     an \<open>INSERT .. RETURNING\<close>\<close>
  "insert_conversation uid type name created_by db =
     (let row = new_conversation type name created_by db
      in case conversations_insert_row uid True row (db\<lparr>next_uuid := Suc (next_uuid db)\<rparr>) of
           (Some e, db1) \<Rightarrow> (Inl e, db1)
         | (None, db1) \<Rightarrow> (Inr row, db1))"

definition insert_conversation_participants ::
  "uuid \<Rightarrow> (uuid \<times> uuid) list \<Rightarrow> store \<Rightarrow> pg_error option \<times> store" where
  \<comment> \<open>\<open>supabase.from('conversation_participants').insert([{ conversation_id, user_id }, ...])\<close>\<close>
  "insert_conversation_participants uid vals db =
     (let rows = map (\<lambda>(i, (c, u)).
                   \<lparr>cp_id = i, cp_conversation_id = c, cp_user_id = u,
                    cp_joined_at = clock db, cp_last_read_at = None\<rparr>)
                  (enumerate (next_uuid db) vals);
          db0 = db\<lparr>next_uuid := next_uuid db + length vals\<rparr>
      in case participants_insert_rows uid rows db0 of
           Inl e \<Rightarrow> (Some e, db0)
         | Inr db1 \<Rightarrow> (None, db1))"

subsection \<open>ContactsModal\<close>

text \<open>
  \<open>handleAddContact\<close>: two inserts, neither result read; \<open>currentUser\<close> is the caller.
  What follows them (\<open>loadContacts()\<close>, \<open>setSearchQuery('')\<close>) touches the modal only.
\<close>

definition handleAddContact :: "uuid \<Rightarrow> uuid \<Rightarrow> store \<Rightarrow> store" where
  "handleAddContact currentUser userId db =
     (let (r1, db1) = insert_contact currentUser currentUser userId db;
          (r2, db2) = insert_contact currentUser userId currentUser db1
      in db2)"

definition has_contact :: "store \<Rightarrow> uuid \<Rightarrow> uuid \<Rightarrow> bool" where
  "has_contact db a b = list_ex (\<lambda>ct. ct_user_id ct = a \<and> ct_contact_id ct = b) (contacts db)"

subsection \<open>ChatWindow\<close>

text \<open>
  \<open>String.prototype.trim\<close> strips the code units of \<open>WhiteSpace\<close> and
  \<open>LineTerminator\<close> from both ends.
\<close>

definition is_white_space :: "16 word \<Rightarrow> bool" where
  "is_white_space c =
     (c \<in> set [0x9, 0xA, 0xB, 0xC, 0xD, 0x20, 0xA0, 0x1680, 0x2028, 0x2029, 0x202F, 0x205F,
               0x3000, 0xFEFF] \<or> (0x2000 \<le> c \<and> c \<le> 0x200A))"

definition trim :: "js_string \<Rightarrow> js_string" where
  "trim s = rev (dropWhile is_white_space (rev (dropWhile is_white_space s)))"

record chat_window =
  newMessage :: js_string
  sending :: bool

text \<open>
  An awaited request that has settled. The client fulfils every request with a response
  and reports a failed statement in the response's \<open>error\<close>.
\<close>

datatype 'a settled = Fulfilled 'a | Rejected

text \<open>
  What \<open>handleSendMessage\<close> does once the insert has settled: after a fulfilled request
  \<open>setNewMessage('')\<close>, the response not being read; after a rejected one \<open>catch\<close>,
  which logs; \<open>finally\<close> resets \<open>sending\<close> both times.
\<close>

definition after_insert :: "chat_window \<Rightarrow> pg_error option settled \<Rightarrow> chat_window" where
  "after_insert st outcome =
     (case outcome of
        Fulfilled response \<Rightarrow> (st\<lparr>newMessage := []\<rparr>)\<lparr>sending := False\<rparr>
      | Rejected \<Rightarrow> st\<lparr>sending := False\<rparr>)"

text \<open>
  \<open>handleSendMessage\<close> for the open conversation and the current user, over the insert
  it calls: \<open>insert_request conversation_id sender_id content\<close> is the request, run by whatever
  store answers. Below it, the handler on the store of this repository.
\<close>

definition handleSendMessage_on ::
  "(uuid \<Rightarrow> uuid \<Rightarrow> js_string \<Rightarrow> 'db \<Rightarrow> pg_error option \<times> 'db) \<Rightarrow>
   uuid \<Rightarrow> uuid \<Rightarrow> chat_window \<Rightarrow> 'db \<Rightarrow> chat_window \<times> 'db" where
  "handleSendMessage_on insert_request conversation currentUser st db =
     (if trim (newMessage st) = [] \<or> sending st then (st, db)
      else
        let st1 = st\<lparr>sending := True\<rparr>;
            (response, db1) = insert_request conversation currentUser (trim (newMessage st)) db
        in (after_insert st1 (Fulfilled response), db1))"

definition handleSendMessage :: "uuid \<Rightarrow> uuid \<Rightarrow> chat_window \<Rightarrow> store \<Rightarrow> chat_window \<times> store" where
  "handleSendMessage conversation currentUser st db =
     handleSendMessage_on (insert_message currentUser) conversation currentUser st db"

subsection \<open>NewChatModal\<close>

text \<open>
  The rows of \<open>select('conversation_id, conversations!inner(type)')\<close>: a participant row
  joined with its conversation, dropped when the caller sees no such conversation. The
  request is one statement over both tables and fails when either \<open>SELECT\<close> does.
\<close>

record existing_conv =
  ec_conversation_id :: uuid
  ec_type :: conversation_type

definition select_existingConv :: "uuid \<Rightarrow> store \<Rightarrow> existing_conv list option" where
  "select_existingConv uid db =
     (case select_conversation_participants uid db of
        Inl e \<Rightarrow> None
      | Inr cps \<Rightarrow>
          (case select_conversations uid db of
             Inl e \<Rightarrow> None
           | Inr convs \<Rightarrow>
               Some (List.map_filter
                 (\<lambda>cp. map_option
                    (\<lambda>c. \<lparr>ec_conversation_id = cp_conversation_id cp, ec_type = c_type c\<rparr>)
                    (find (\<lambda>r. c_id r = cp_conversation_id cp) convs))
                 (filter (\<lambda>cp. cp_user_id cp = uid) cps))))"

definition select_participant_user_ids :: "uuid \<Rightarrow> store \<Rightarrow> uuid \<Rightarrow> uuid list option" where
  \<comment> \<open>\<open>select('user_id').eq('conversation_id', c)\<close>\<close>
  "select_participant_user_ids uid db c =
     (case select_conversation_participants uid db of
        Inl e \<Rightarrow> None
      | Inr cps \<Rightarrow> Some (map cp_user_id (filter (\<lambda>cp. cp_conversation_id cp = c) cps)))"

text \<open>
  The \<open>for\<close> loop of \<open>handleCreatePrivateChat\<close>: the first private conversation of the
  caller with exactly two participant rows, one of them the contact's; \<open>q\<close> answers the
  request for a conversation's participants.
\<close>

fun find_existing :: "(uuid \<Rightarrow> uuid list option) \<Rightarrow> uuid \<Rightarrow> existing_conv list \<Rightarrow> uuid option" where
  "find_existing q contactId [] = None"
| "find_existing q contactId (conv # rest) =
     (if ec_type conv = Private then
        (case q (ec_conversation_id conv) of
           Some participants \<Rightarrow>
             if length participants = 2 \<and> list_ex (\<lambda>p. p = contactId) participants
             then Some (ec_conversation_id conv)
             else find_existing q contactId rest
         | None \<Rightarrow> find_existing q contactId rest)
      else find_existing q contactId rest)"

text \<open>
  Both handlers, over the requests they make: the response \<open>existingConv\<close> of the search,
  the answers \<open>participants_of\<close> to the loop's requests, and the two inserts. They return
  the argument of \<open>onConversationCreated\<close> (\<open>None\<close> when it is not called) and the store.
  A failed insert of the conversation is thrown and caught; the response of the
  participants' insert is not read. Below each, the handler on the store of this
  repository.
\<close>

definition handleCreatePrivateChat_on ::
  "existing_conv list option \<Rightarrow> (uuid \<Rightarrow> uuid list option) \<Rightarrow>
   (conversation_type \<Rightarrow> js_string option \<Rightarrow> uuid \<Rightarrow> 'db \<Rightarrow> (pg_error + conversation) \<times> 'db) \<Rightarrow>
   ((uuid \<times> uuid) list \<Rightarrow> 'db \<Rightarrow> pg_error option \<times> 'db) \<Rightarrow>
   uuid \<Rightarrow> uuid \<Rightarrow> 'db \<Rightarrow> uuid option \<times> 'db" where
  "handleCreatePrivateChat_on existingConv participants_of insert_conv insert_parts
     currentUser contactId db =
     (let found = (case existingConv of
                     Some convs \<Rightarrow> find_existing participants_of contactId convs
                   | None \<Rightarrow> None)
      in case found of
           Some c \<Rightarrow> (Some c, db)
         | None \<Rightarrow>
             (case insert_conv Private None currentUser db of
                (Inl convError, db1) \<Rightarrow> (None, db1)
              | (Inr newConv, db1) \<Rightarrow>
                  let (r, db2) = insert_parts
                                   [(c_id newConv, currentUser), (c_id newConv, contactId)] db1
                  in (Some (c_id newConv), db2)))"

definition handleCreatePrivateChat :: "uuid \<Rightarrow> uuid \<Rightarrow> store \<Rightarrow> uuid option \<times> store" where
  "handleCreatePrivateChat currentUser contactId db =
     handleCreatePrivateChat_on (select_existingConv currentUser db)
       (select_participant_user_ids currentUser db) (insert_conversation currentUser)
       (insert_conversation_participants currentUser) currentUser contactId db"




text \<open>
  What the search of \<open>handleCreatePrivateChat\<close> is for, on the tables: \<open>u\<close> has a
  participant row in conversation \<open>c\<close>, \<open>c\<close> is private and has exactly two participant
  rows, one of them of \<open>b\<close>.
\<close>

definition private_chat_with :: "store \<Rightarrow> uuid \<Rightarrow> uuid \<Rightarrow> uuid \<Rightarrow> bool" where
  "private_chat_with db u b c =
     (list_ex (\<lambda>cp. cp_conversation_id cp = c \<and> cp_user_id cp = u) (conversation_participants db) \<and>
      list_ex (\<lambda>r. c_id r = c \<and> c_type r = Private) (conversations db) \<and>
      length (filter (\<lambda>cp. cp_conversation_id cp = c) (conversation_participants db)) = 2 \<and>
      list_ex (\<lambda>cp. cp_conversation_id cp = c \<and> cp_user_id cp = b) (conversation_participants db))"

subsection \<open>ChatInterface\<close>

record profile_embed =
  pe_id :: uuid
  pe_email :: js_string
  pe_display_name :: js_string
  pe_avatar_url :: "js_string option"
  pe_status :: js_string

record participant_data =
  pd_conversation_id :: uuid
  pd_last_read_at :: "timestamptz option"
  pd_conversations :: "conversation option"

record participant_profiles = conversation_participant +
  cp_profiles :: "profile_embed option"

record participant_profile = conversation_participant +
  cp_profile :: "profile_embed option"

record conversation_with_details = conversation +
  participants :: "participant_profile list"
  last_message :: "message option"
  unread_count :: nat

text \<open>
  \<open>new Date(s).getTime()\<close> of a \<open>timestamptz\<close> value: milliseconds, the digits of the
  stored microseconds beyond them dropped.
\<close>

definition date_getTime :: "timestamptz \<Rightarrow> int" where
  "date_getTime t = t div 1000"

text \<open>
  The callback of \<open>participantData.map\<close>, over the responses of the two later requests
  (\<open>None\<close> is \<open>data: null\<close>). A null embed has no \<open>id\<close> to read: the \<open>TypeError\<close> ends the
  load in \<open>catch\<close>, here \<open>None\<close>.
\<close>

definition conversation_details ::
  "participant_profiles list option \<Rightarrow> message list option \<Rightarrow> participant_data \<Rightarrow>
   conversation_with_details option" where
  "conversation_details allParticipants lastMessages p =
     (case pd_conversations p of
        None \<Rightarrow> None
      | Some conv \<Rightarrow>
          let participants =
                (case allParticipants of
                   Some aps \<Rightarrow> filter (\<lambda>ap. cp_conversation_id ap = c_id conv) aps
                 | None \<Rightarrow> []);
              lastMessage =
                (case lastMessages of
                   Some ms \<Rightarrow> find (\<lambda>m. m_conversation_id m = c_id conv) ms
                 | None \<Rightarrow> None);
              unreadMessages =
                (case lastMessages of
                   Some ms \<Rightarrow>
                     filter (\<lambda>m. m_conversation_id m = c_id conv \<and>
                                 (case pd_last_read_at p of
                                    None \<Rightarrow> True
                                  | Some t \<Rightarrow> date_getTime (m_created_at m) > date_getTime t)) ms
                 | None \<Rightarrow> [])
          in Some \<lparr>c_id = c_id conv, c_type = c_type conv, c_name = c_name conv,
                   c_created_by = c_created_by conv, c_created_at = c_created_at conv,
                   c_updated_at = c_updated_at conv,
                   participants =
                     map (\<lambda>ap. \<lparr>cp_id = cp_id ap, cp_conversation_id = cp_conversation_id ap,
                                cp_user_id = cp_user_id ap, cp_joined_at = cp_joined_at ap,
                                cp_last_read_at = cp_last_read_at ap,
                                cp_profile = cp_profiles ap\<rparr>) participants,
                   last_message = lastMessage,
                   unread_count = length unreadMessages\<rparr>)"

text \<open>
  \<open>Array.prototype.sort\<close> with a comparator: a stable sort, an element staying before
  the ones it does not compare greater than.
\<close>

fun insert_by :: "('a \<Rightarrow> 'a \<Rightarrow> int) \<Rightarrow> 'a \<Rightarrow> 'a list \<Rightarrow> 'a list" where
  "insert_by cmp x [] = [x]"
| "insert_by cmp x (y # ys) = (if cmp x y \<le> 0 then x # y # ys else y # insert_by cmp x ys)"

definition sort_by :: "('a \<Rightarrow> 'a \<Rightarrow> int) \<Rightarrow> 'a list \<Rightarrow> 'a list" where
  "sort_by cmp xs = foldr (insert_by cmp) xs []"

definition sort_time :: "conversation_with_details \<Rightarrow> timestamptz" where
  \<comment> \<open>\<open>a.last_message?.created_at || a.created_at\<close>\<close>
  "sort_time a = (case last_message a of Some m \<Rightarrow> m_created_at m | None \<Rightarrow> c_created_at a)"

definition compare_time :: "conversation_with_details \<Rightarrow> conversation_with_details \<Rightarrow> int" where
  \<comment> \<open>\<open>new Date(bTime).getTime() - new Date(aTime).getTime()\<close>\<close>
  "compare_time a b = date_getTime (sort_time b) - date_getTime (sort_time a)"

text \<open>
  \<open>loadConversations\<close> over the three responses; the later two requests take the
  conversation ids of the first. The result is the argument of \<open>setConversations\<close>,
  \<open>None\<close> when it is not reached.
\<close>

definition loadConversations_of ::
  "participant_data list option \<Rightarrow> (uuid list \<Rightarrow> participant_profiles list option) \<Rightarrow>
   (uuid list \<Rightarrow> message list option) \<Rightarrow> conversation_with_details list option" where
  "loadConversations_of participantData_response allParticipants_request lastMessages_request =
     (case participantData_response of
        None \<Rightarrow> None
      | Some participantData \<Rightarrow>
          let conversationIds = map pd_conversation_id participantData;
              allParticipants = allParticipants_request conversationIds;
              lastMessages = lastMessages_request conversationIds
          in map_option (sort_by compare_time)
               (those (map (conversation_details allParticipants lastMessages) participantData)))"

text \<open>The three requests on the store of this repository, each one statement.\<close>

definition select_participantData :: "uuid \<Rightarrow> store \<Rightarrow> participant_data list option" where
  "select_participantData uid db =
     (case select_conversation_participants uid db of
        Inl e \<Rightarrow> None
      | Inr cps \<Rightarrow>
          (case select_conversations uid db of
             Inl e \<Rightarrow> None
           | Inr convs \<Rightarrow>
               Some (map
                 (\<lambda>cp. \<lparr>pd_conversation_id = cp_conversation_id cp,
                        pd_last_read_at = cp_last_read_at cp,
                        pd_conversations = find (\<lambda>r. c_id r = cp_conversation_id cp) convs\<rparr>)
                 (filter (\<lambda>cp. cp_user_id cp = uid) cps))))"

definition embed_profile :: "profile list \<Rightarrow> uuid \<Rightarrow> profile_embed option" where
  "embed_profile ps u =
     map_option
       (\<lambda>p. \<lparr>pe_id = p_id p, pe_email = p_email p, pe_display_name = p_display_name p,
             pe_avatar_url = p_avatar_url p, pe_status = p_status p\<rparr>)
       (find (\<lambda>p. p_id p = u) ps)"

definition select_allParticipants ::
  "uuid \<Rightarrow> store \<Rightarrow> uuid list \<Rightarrow> participant_profiles list option" where
  "select_allParticipants uid db conversationIds =
     (case select_conversation_participants uid db of
        Inl e \<Rightarrow> None
      | Inr cps \<Rightarrow>
          (case select_profiles uid db of
             Inl e \<Rightarrow> None
           | Inr ps \<Rightarrow>
               Some (map
                 (\<lambda>cp. \<lparr>cp_id = cp_id cp, cp_conversation_id = cp_conversation_id cp,
                        cp_user_id = cp_user_id cp, cp_joined_at = cp_joined_at cp,
                        cp_last_read_at = cp_last_read_at cp,
                        cp_profiles = embed_profile ps (cp_user_id cp)\<rparr>)
                 (filter (\<lambda>cp. cp_conversation_id cp \<in> set conversationIds) cps))))"

definition select_lastMessages :: "uuid \<Rightarrow> store \<Rightarrow> uuid list \<Rightarrow> message list option" where
  \<comment> \<open>\<open>order('created_at', { ascending: false })\<close>\<close>
  "select_lastMessages uid db conversationIds =
     (case select_messages uid db of
        Inl e \<Rightarrow> None
      | Inr ms \<Rightarrow>
          Some (sort_key (\<lambda>m. - m_created_at m)
            (filter (\<lambda>m. m_conversation_id m \<in> set conversationIds) ms)))"

definition loadConversations :: "uuid \<Rightarrow> store \<Rightarrow> conversation_with_details list option" where
  "loadConversations user db =
     loadConversations_of (select_participantData user db) (select_allParticipants user db)
       (select_lastMessages user db)"

section \<open>Inputs to run the model on\<close>

text \<open>
  A store with three profiles; user 1 has contacts 2 and 3; a private conversation 10
  between 1 and 2 with two messages, read by 1 up to instant 1500000; an empty group 11
  of all three.
\<close>

definition example_profile :: "uuid \<Rightarrow> profile" where
  "example_profile u =
     \<lparr>p_id = u, p_email = [0x61, 0x40, 0x62], p_display_name = [0x61], p_avatar_url = None,
      p_status = [0x6F, 0x6E], p_created_at = 0, p_updated_at = 0\<rparr>"

definition example_conversation :: "uuid \<Rightarrow> conversation_type \<Rightarrow> timestamptz \<Rightarrow> conversation" where
  "example_conversation c t created =
     \<lparr>c_id = c, c_type = t, c_name = None, c_created_by = 1, c_created_at = created,
      c_updated_at = created\<rparr>"

definition example_message_at :: "uuid \<Rightarrow> uuid \<Rightarrow> timestamptz \<Rightarrow> message" where
  "example_message_at i u created =
     \<lparr>m_id = i, m_conversation_id = 10, m_sender_id = u, m_content = [0x68, 0x69],
      m_created_at = created, m_updated_at = created\<rparr>"

definition example_store :: store where
  "example_store =
     \<lparr>profiles = [example_profile 1, example_profile 2, example_profile 3],
      contacts =
        [\<lparr>ct_id = 100, ct_user_id = 1, ct_contact_id = 2, ct_created_at = 500000\<rparr>,
         \<lparr>ct_id = 101, ct_user_id = 1, ct_contact_id = 3, ct_created_at = 600000\<rparr>],
      conversations =
        [example_conversation 10 Private 1000000, example_conversation 11 Group 2000000],
      conversation_participants =
        [\<lparr>cp_id = 20, cp_conversation_id = 10, cp_user_id = 1, cp_joined_at = 1000000,
          cp_last_read_at = Some 1500000\<rparr>,
         \<lparr>cp_id = 21, cp_conversation_id = 10, cp_user_id = 2, cp_joined_at = 1000000,
          cp_last_read_at = None\<rparr>,
         \<lparr>cp_id = 22, cp_conversation_id = 11, cp_user_id = 1, cp_joined_at = 2000000,
          cp_last_read_at = None\<rparr>,
         \<lparr>cp_id = 23, cp_conversation_id = 11, cp_user_id = 2, cp_joined_at = 2000000,
          cp_last_read_at = None\<rparr>,
         \<lparr>cp_id = 24, cp_conversation_id = 11, cp_user_id = 3, cp_joined_at = 2000000,
          cp_last_read_at = None\<rparr>],
      messages = [example_message_at 30 2 1400000, example_message_at 31 2 1600000],
      next_uuid = 200,
      clock = 5000000\<rparr>"

definition example_message :: "uuid \<Rightarrow> message" where
  "example_message u = example_message_at 32 u 5000000"

text \<open>
  Responses to the three requests of \<open>loadConversations\<close> for user 1, as a store that
  lets a participant read would give them from the tables above.
\<close>

definition example_participantData :: "participant_data list" where
  "example_participantData =
     [\<lparr>pd_conversation_id = 10, pd_last_read_at = Some 1500000,
       pd_conversations = Some (example_conversation 10 Private 1000000)\<rparr>,
      \<lparr>pd_conversation_id = 11, pd_last_read_at = None,
       pd_conversations = Some (example_conversation 11 Group 2000000)\<rparr>]"

definition example_allParticipants :: "uuid list \<Rightarrow> participant_profiles list option" where
  "example_allParticipants conversationIds = Some []"

definition example_lastMessages :: "uuid list \<Rightarrow> message list option" where
  "example_lastMessages conversationIds =
     Some [example_message_at 31 2 1600000, example_message_at 30 2 1400000]"

text \<open>
  Responses in which two instants fall into one millisecond: a message of conversation
  10 stored 400 microseconds after the caller's \<open>last_read_at\<close>, and two conversations
  without messages created 800 microseconds apart.
\<close>

definition close_participantData :: "participant_data list" where
  "close_participantData =
     [\<lparr>pd_conversation_id = 10, pd_last_read_at = Some 1500000,
       pd_conversations = Some (example_conversation 10 Private 1000000)\<rparr>]"

definition close_lastMessages :: "uuid list \<Rightarrow> message list option" where
  "close_lastMessages conversationIds = Some [example_message_at 33 2 1500400]"

definition close_conversations :: "participant_data list" where
  "close_conversations =
     [\<lparr>pd_conversation_id = 10, pd_last_read_at = None,
       pd_conversations = Some (example_conversation 10 Private 1000100)\<rparr>,
      \<lparr>pd_conversation_id = 11, pd_last_read_at = None,
       pd_conversations = Some (example_conversation 11 Group 1000900)\<rparr>]"

definition no_lastMessages :: "uuid list \<Rightarrow> message list option" where
  "no_lastMessages conversationIds = Some []"

text \<open>A store that keeps the inserts of messages it is asked for, and takes each.\<close>

definition record_request ::
  "uuid \<Rightarrow> uuid \<Rightarrow> js_string \<Rightarrow> (uuid \<times> uuid \<times> js_string) list \<Rightarrow>
   pg_error option \<times> (uuid \<times> uuid \<times> js_string) list" where
  "record_request conversation_id sender_id content log =
     (None, log @ [(conversation_id, sender_id, content)])"


section \<open>Row level security on this schema\<close>

text \<open>
  The \<open>SELECT\<close> policy of \<open>conversation_participants\<close> sub-selects from its own table.
  Every statement that has to add it fails: each \<open>SELECT\<close> from
  \<open>conversation_participants\<close>, \<open>conversations\<close> or \<open>messages\<close>, each \<open>INSERT\<close> into
  \<open>messages\<close> or \<open>conversation_participants\<close>, and an \<open>INSERT .. RETURNING\<close> into
  \<open>conversations\<close>. Statements on \<open>profiles\<close> and \<open>contacts\<close>, and a plain \<open>INSERT\<close> into
  \<open>conversations\<close>, pass.
\<close>

lemma select_allowed_schema:
  "select_allowed Profiles" "select_allowed Contacts"
  "\<not> select_allowed Conversations" "\<not> select_allowed ConversationParticipants"
  "\<not> select_allowed Messages"
  by (simp_all add: select_allowed_def rls_ok.simps)

lemma insert_allowed_schema:
  "insert_allowed Contacts False" "insert_allowed Conversations False"
  "\<not> insert_allowed Conversations True" "\<not> insert_allowed ConversationParticipants False"
  "\<not> insert_allowed Messages False"
  by (simp_all add: insert_allowed_def rls_ok.simps)

lemma selects_fail:
  "select_conversations uid db = Inl InfiniteRecursion"
  "select_conversation_participants uid db = Inl InfiniteRecursion"
  "select_messages uid db = Inl InfiniteRecursion"
  by (simp_all add: select_conversations_def select_conversation_participants_def
        select_messages_def select_allowed_schema)

lemma messages_insert_row_fails:
  "messages_insert_row uid row db = (Some InfiniteRecursion, db)"
  by (simp add: messages_insert_row_def insert_allowed_schema)



lemma insert_conversation_fails:
  "insert_conversation uid type name created_by db =
     (Inl InfiniteRecursion, db\<lparr>next_uuid := Suc (next_uuid db)\<rparr>)"
  by (simp add: insert_conversation_def conversations_insert_row_def insert_allowed_schema)

lemma requests_fail:
  "select_participantData uid db = None"
  "select_allParticipants uid db ids = None"
  "select_lastMessages uid db ids = None"
  "select_existingConv uid db = None"
  "select_participant_user_ids uid db c = None"
  by (simp_all add: select_participantData_def select_allParticipants_def
        select_lastMessages_def select_existingConv_def select_participant_user_ids_def
        selects_fail)

text \<open>
  So on this store \<open>loadConversations\<close> sets no list, no message is ever stored, and the
  composer creates nothing.
\<close>

lemma loadConversations_sets_no_list: "loadConversations user db = None"
  by (simp add: loadConversations_def loadConversations_of_def requests_fail)

lemma handleSendMessage_stores_nothing:
  "messages (snd (handleSendMessage conversation currentUser st db)) = messages db"
  by (simp add: handleSendMessage_def handleSendMessage_on_def insert_message_def
        messages_insert_row_fails)

lemma handleCreatePrivateChat_creates_nothing:
  "handleCreatePrivateChat currentUser contactId db =
     (None, db\<lparr>next_uuid := Suc (next_uuid db)\<rparr>)"
  by (simp add: handleCreatePrivateChat_def handleCreatePrivateChat_on_def requests_fail
        insert_conversation_fails)


section \<open>Properties of the policies\<close>

text \<open>
  C1. User 1, who has a participant row for conversation 10, inserts a message there with
  itself as \<open>sender_id\<close>: both conditions of the policy "Users can send messages to their
  conversations" hold, and the insert is rejected all the same, with error 42P17, the table
  unchanged. The insert is rejected for every caller and row.
\<close>

theorem participant_message_insert_rejected:
  "m_sender_id (example_message 1) = 1 \<and> m_conversation_id (example_message 1) = 10 \<and>
   (\<exists>cp \<in> set (conversation_participants example_store).
      cp_conversation_id cp = 10 \<and> cp_user_id cp = 1) \<and>
   messages_insert_check 1 example_store (example_message 1) \<and>
   fst (messages_insert_row 1 (example_message 1) example_store) = Some InfiniteRecursion \<and>
   messages (snd (messages_insert_row 1 (example_message 1) example_store)) =
     messages example_store \<and>
   fst (insert_message 1 10 1 [0x68, 0x69] example_store) = Some InfiniteRecursion"
  by (simp add: messages_insert_row_fails insert_message_def messages_insert_check_def
        exists_participant_def example_message_def example_message_at_def example_store_def)

text \<open>
  C2. A caller with no participant row for conversation \<open>c\<close> selects no row of \<open>c\<close>: not
  the conversation, not its participants, not its messages. No such row satisfies the
  \<open>USING\<close> expression of its table's policy, and the statements of the store return none.
\<close>

theorem non_participant_selects_nothing:
  assumes "\<not> (\<exists>cp \<in> set (conversation_participants db).
               cp_conversation_id cp = c \<and> cp_user_id cp = u)"
  shows "filter (\<lambda>r. c_id r = c)
           (filter (conversations_select_using u db) (conversations db)) = [] \<and>
         filter (\<lambda>r. cp_conversation_id r = c)
           (filter (participants_select_using u db) (conversation_participants db)) = [] \<and>
         filter (\<lambda>r. m_conversation_id r = c)
           (filter (messages_select_using u db) (messages db)) = [] \<and>
         filter (\<lambda>r. c_id r = c) (rows_of (select_conversations u db)) = [] \<and>
         filter (\<lambda>r. cp_conversation_id r = c)
           (rows_of (select_conversation_participants u db)) = [] \<and>
         filter (\<lambda>r. m_conversation_id r = c) (rows_of (select_messages u db)) = []"
proof -
  from assms have "\<not> exists_participant db c u"
    by (simp add: exists_participant_def list_ex_iff)
  then show ?thesis
    by (auto simp: filter_empty_conv conversations_select_using_def
          participants_select_using_def messages_select_using_def rows_of_def
          select_conversations_def select_conversation_participants_def select_messages_def)
qed

theorem non_participant_selects_nothing_witness:
  "\<not> (\<exists>cp \<in> set (conversation_participants example_store).
         cp_conversation_id cp = 10 \<and> cp_user_id cp = 3) \<and>
   filter (\<lambda>r. c_id r = 10) (conversations example_store) \<noteq> [] \<and>
   filter (\<lambda>r. m_conversation_id r = 10) (messages example_store) \<noteq> [] \<and>
   filter (\<lambda>r. c_id r = 10)
     (filter (conversations_select_using 3 example_store) (conversations example_store)) = [] \<and>
   filter (\<lambda>r. cp_conversation_id r = 10)
     (filter (participants_select_using 3 example_store)
        (conversation_participants example_store)) = [] \<and>
   filter (\<lambda>r. m_conversation_id r = 10)
     (filter (messages_select_using 3 example_store) (messages example_store)) = [] \<and>
   filter (\<lambda>r. c_id r = 10) (rows_of (select_conversations 3 example_store)) = [] \<and>
   filter (\<lambda>r. cp_conversation_id r = 10)
     (rows_of (select_conversation_participants 3 example_store)) = [] \<and>
   filter (\<lambda>r. m_conversation_id r = 10) (rows_of (select_messages 3 example_store)) = []"
proof -
  have h: "\<not> (\<exists>cp \<in> set (conversation_participants example_store).
                 cp_conversation_id cp = 10 \<and> cp_user_id cp = 3)"
    by (simp add: example_store_def)
  have "filter (\<lambda>r. c_id r = 10) (conversations example_store) \<noteq> []"
    "filter (\<lambda>r. m_conversation_id r = 10) (messages example_store) \<noteq> []"
    by (simp_all add: example_store_def example_conversation_def example_message_at_def)
  with h non_participant_selects_nothing [OF h] show ?thesis by blast
qed

section \<open>Properties of the handlers\<close>

subsection \<open>Adding a contact\<close>

text \<open>
  The second insert of \<open>handleAddContact\<close> names another user as \<open>user_id\<close>, which the
  policy "Users can add own contacts" rejects: the reverse row is there afterwards only
  if it was there before.
\<close>

lemma handleAddContact_reverse_row:
  assumes "a \<noteq> b"
  shows "has_contact (handleAddContact a b db) b a = has_contact db b a"
  using assms
  by (auto simp: handleAddContact_def insert_contact_def contacts_insert_row_def
        contacts_insert_check_def has_contact_def split_beta Let_def list_ex_iff)

text \<open>
  C4. User 2 adds user 3 in a store where neither is a contact of the other: the row
  (2, 3) is created, the insert of the row (3, 2) is rejected by row level security, and
  no pair exists afterwards.
\<close>

theorem handleAddContact_creates_one_row:
  "\<not> has_contact example_store 2 3 \<and> \<not> has_contact example_store 3 2 \<and>
   has_contact (handleAddContact 2 3 example_store) 2 3 \<and>
   \<not> has_contact (handleAddContact 2 3 example_store) 3 2 \<and>
   fst (insert_contact 2 3 2 example_store) = Some RlsViolation"
  by (simp add: handleAddContact_def insert_contact_def contacts_insert_row_def
        insert_allowed_schema contacts_insert_check_def has_contact_def has_profile_def
        example_store_def example_profile_def)

subsection \<open>Sending a message\<close>

text \<open>
  Once past its guard, \<open>handleSendMessage\<close> empties the compose box, whatever the store
  answered to the insert.
\<close>

lemma handleSendMessage_clears_newMessage:
  assumes "\<not> (trim (newMessage st) = [] \<or> sending st)"
  shows "newMessage (fst (handleSendMessage_on insert_request c u st db)) = [] \<and>
         newMessage st \<noteq> []"
  using assms
  by (auto simp: handleSendMessage_on_def after_insert_def split_beta Let_def trim_def)

text \<open>Only a request that throws would leave the compose box as it was.\<close>

lemma after_insert_newMessage:
  "newMessage (after_insert st Rejected) = newMessage st"
  "newMessage (after_insert st (Fulfilled response)) = []"
  by (simp_all add: after_insert_def)

text \<open>
  C7. User 3, who has no participant row for conversation 10, sends "hi" there: the
  insert fails, no message is stored, and the compose box is emptied all the same.
\<close>

theorem handleSendMessage_failed_insert_clears:
  "fst (insert_message 3 10 3 [0x68, 0x69] example_store) = Some InfiniteRecursion \<and>
   messages (snd (handleSendMessage 10 3 \<lparr>newMessage = [0x68, 0x69], sending = False\<rparr>
                    example_store)) = messages example_store \<and>
   newMessage (fst (handleSendMessage 10 3 \<lparr>newMessage = [0x68, 0x69], sending = False\<rparr>
                      example_store)) = []"
  by (simp add: handleSendMessage_def handleSendMessage_on_def after_insert_def
        insert_message_def messages_insert_row_fails trim_def is_white_space_def)

lemma last_dropWhile: "dropWhile P xs \<noteq> [] \<Longrightarrow> last (dropWhile P xs) = last xs"
  by (induction xs) (auto split: if_splits)

lemma trim_ends:
  assumes "trim s \<noteq> []"
  shows "\<not> is_white_space (hd (trim s)) \<and> \<not> is_white_space (last (trim s))"
proof -
  let ?t = "dropWhile is_white_space s"
  let ?r = "dropWhile is_white_space (rev ?t)"
  from assms have r: "?r \<noteq> []" by (simp add: trim_def)
  have t: "?t \<noteq> []"
  proof
    assume "?t = []"
    with r show False by simp
  qed
  from r have "\<not> is_white_space (hd ?r)" by (rule hd_dropWhile)
  with r have l: "\<not> is_white_space (last (trim s))" by (simp add: trim_def last_rev)
  from r have "last ?r = last (rev ?t)" by (rule last_dropWhile)
  with t have "last ?r = hd ?t" by (simp add: last_rev)
  moreover from t have "\<not> is_white_space (hd ?t)" by (rule hd_dropWhile)
  ultimately have "\<not> is_white_space (hd (trim s))" using r by (simp add: trim_def hd_rev)
  with l show ?thesis by simp
qed

text \<open>
  C10. Whatever store answers: when the trimmed input is empty or a send is in flight,
  \<open>handleSendMessage\<close> sends no insert and leaves the store as it is; otherwise what it
  does to the store is the one insert it sends, whose content is the trimmed input, not
  empty and neither starting nor ending with white space.
\<close>

theorem handleSendMessage_inserts_trimmed:
  "((trim (newMessage st) = [] \<or> sending st) \<longrightarrow>
      snd (handleSendMessage_on insert_request c u st db) = db) \<and>
   (\<not> (trim (newMessage st) = [] \<or> sending st) \<longrightarrow>
      snd (handleSendMessage_on insert_request c u st db) =
        snd (insert_request c u (trim (newMessage st)) db) \<and>
      trim (newMessage st) \<noteq> [] \<and>
      \<not> is_white_space (hd (trim (newMessage st))) \<and>
      \<not> is_white_space (last (trim (newMessage st))))"
proof (cases "trim (newMessage st) = [] \<or> sending st")
  case True
  then show ?thesis by (auto simp: handleSendMessage_on_def)
next
  case False
  then have ne: "trim (newMessage st) \<noteq> []" by simp
  from False have "snd (handleSendMessage_on insert_request c u st db) =
      snd (insert_request c u (trim (newMessage st)) db)"
    by (simp add: handleSendMessage_on_def split_beta Let_def)
  with False trim_ends [OF ne] ne show ?thesis by simp
qed

theorem handleSendMessage_inserts_trimmed_witness:
  "trim [0x20, 0x20] = [] \<and>
   snd (handleSendMessage_on record_request 10 1
          \<lparr>newMessage = [0x20, 0x20], sending = False\<rparr> []) = [] \<and>
   snd (handleSendMessage_on record_request 10 1
          \<lparr>newMessage = [0x20, 0x68, 0x69, 0x20], sending = True\<rparr> []) = [] \<and>
   trim [0x20, 0x68, 0x69, 0x20] = [0x68, 0x69] \<and>
   snd (handleSendMessage_on record_request 10 1
          \<lparr>newMessage = [0x20, 0x68, 0x69, 0x20], sending = False\<rparr> []) =
     [(10, 1, [0x68, 0x69])]"
proof -
  let ?blank = "\<lparr>newMessage = [0x20, 0x20], sending = False\<rparr>"
  let ?busy = "\<lparr>newMessage = [0x20, 0x68, 0x69, 0x20], sending = True\<rparr>"
  let ?hi = "\<lparr>newMessage = [0x20, 0x68, 0x69, 0x20], sending = False\<rparr>"
  have b: "trim [0x20, 0x20] = []" and h: "trim [0x20, 0x68, 0x69, 0x20] = [0x68, 0x69]"
    by (simp_all add: trim_def is_white_space_def)
  from handleSendMessage_inserts_trimmed [of ?blank record_request 10 1 "[]"] b
  have 1: "snd (handleSendMessage_on record_request 10 1 ?blank []) = []" by simp
  from handleSendMessage_inserts_trimmed [of ?busy record_request 10 1 "[]"]
  have 2: "snd (handleSendMessage_on record_request 10 1 ?busy []) = []" by simp
  from handleSendMessage_inserts_trimmed [of ?hi record_request 10 1 "[]"] h
  have 3: "snd (handleSendMessage_on record_request 10 1 ?hi []) = [(10, 1, [0x68, 0x69])]"
    by (simp add: record_request_def)
  from b 1 2 h 3 show ?thesis by simp
qed

section \<open>Properties of the conversation list\<close>

lemma those_eq_Some: "those xs = Some ys \<Longrightarrow> xs = map Some ys"
  by (induction xs arbitrary: ys) (auto split: option.splits)

lemma those_map_Some_elem:
  assumes "those (map f xs) = Some ys" "y \<in> set ys"
  shows "\<exists>x \<in> set xs. f x = Some y"
proof -
  from assms(1) have "map f xs = map Some ys" by (rule those_eq_Some)
  then have "set (map f xs) = set (map Some ys)" by simp
  with assms(2) have "Some y \<in> set (map f xs)" by simp
  then show ?thesis by auto
qed

lemma set_insert_by: "set (insert_by cmp x ys) = insert x (set ys)"
  by (induction ys) auto

lemma set_sort_by: "set (sort_by cmp xs) = set xs"
  by (induction xs) (simp_all add: sort_by_def set_insert_by)

lemma sorted_insert_by_time:
  "sorted_wrt (\<lambda>a b. date_getTime (sort_time b) \<le> date_getTime (sort_time a)) ys \<Longrightarrow>
   sorted_wrt (\<lambda>a b. date_getTime (sort_time b) \<le> date_getTime (sort_time a))
     (insert_by compare_time x ys)"
  by (induction ys) (auto simp: compare_time_def set_insert_by)

lemma sorted_sort_by_time:
  "sorted_wrt (\<lambda>a b. date_getTime (sort_time b) \<le> date_getTime (sort_time a))
     (sort_by compare_time xs)"
proof (induction xs)
  case Nil
  show ?case by (simp add: sort_by_def)
next
  case (Cons x xs)
  then show ?case using sorted_insert_by_time [of "sort_by compare_time xs" x]
    by (simp add: sort_by_def)
qed

lemma loadConversations_of_entry:
  assumes "loadConversations_of (Some pd) q2 q3 = Some cs" "e \<in> set cs"
  obtains p where "p \<in> set pd"
    "conversation_details (q2 (map pd_conversation_id pd)) (q3 (map pd_conversation_id pd)) p = Some e"
proof -
  let ?f = "conversation_details (q2 (map pd_conversation_id pd)) (q3 (map pd_conversation_id pd))"
  from assms(1) obtain ds where ds: "those (map ?f pd) = Some ds" "cs = sort_by compare_time ds"
    by (auto simp: loadConversations_of_def Let_def)
  with assms(2) have "e \<in> set ds" by (simp add: set_sort_by)
  from those_map_Some_elem [OF ds(1) this] obtain p where "p \<in> set pd" "?f p = Some e" ..
  then show thesis by (rule that)
qed

lemma details_fields:
  assumes "conversation_details aps lms p = Some e"
  obtains conv where "pd_conversations p = Some conv" "c_id e = c_id conv"
    "c_created_at e = c_created_at conv"
    "last_message e =
       (case lms of Some ms \<Rightarrow> find (\<lambda>m. m_conversation_id m = c_id conv) ms | None \<Rightarrow> None)"
    "unread_count e =
       (case lms of
          Some ms \<Rightarrow>
            length (filter (\<lambda>m. m_conversation_id m = c_id conv \<and>
                      (case pd_last_read_at p of
                         None \<Rightarrow> True
                       | Some t \<Rightarrow> date_getTime (m_created_at m) > date_getTime t)) ms)
        | None \<Rightarrow> 0)"
  using assms
  by (cases "pd_conversations p"; cases lms) (auto simp: conversation_details_def Let_def)

text \<open>
  C3, read to the stored instant. A message of conversation 10 stored 400 microseconds
  after the caller's \<open>last_read_at\<close> is later than it, and \<open>unread_count\<close> does not count
  it: both instants are the same millisecond to \<open>new Date\<close>.
\<close>

theorem unread_count_misses_same_millisecond:
  "map_option (map unread_count)
     (loadConversations_of (Some close_participantData) example_allParticipants
        close_lastMessages) = Some [0] \<and>
   map_option (map c_id)
     (loadConversations_of (Some close_participantData) example_allParticipants
        close_lastMessages) = Some [10] \<and>
   close_lastMessages [10] = Some [example_message_at 33 2 1500400] \<and>
   m_conversation_id (example_message_at 33 2 1500400) = 10 \<and>
   map pd_last_read_at close_participantData = [Some 1500000] \<and>
   1500000 < m_created_at (example_message_at 33 2 1500400)"
  by (simp add: loadConversations_of_def conversation_details_def close_participantData_def
        close_lastMessages_def example_allParticipants_def example_conversation_def
        example_message_at_def date_getTime_def sort_by_def)

text \<open>
  C3, as the code has it. In the list \<open>loadConversations\<close> sets from the responses to its
  requests, the entry of a conversation whose row \<open>p\<close> of \<open>participantData\<close> has
  \<open>last_read_at = t\<close> has as \<open>unread_count\<close> the number of the conversation's messages in
  the response \<open>lastMessages\<close> whose \<open>created_at\<close> is a later millisecond than \<open>t\<close>, of all
  the conversation's messages there when \<open>last_read_at\<close> is null, and 0 when the response
  has no data. The row \<open>p\<close> is the one row of the conversation: the caller has one
  participant row for each (\<open>UNIQUE(conversation_id, user_id)\<close>).
\<close>

theorem unread_count_counts_later_dates:
  assumes "loadConversations_of (Some pd) q2 q3 = Some cs" and "e \<in> set cs"
    and "distinct (map (\<lambda>p. map_option c_id (pd_conversations p)) pd)"
    and "p \<in> set pd" and "map_option c_id (pd_conversations p) = Some (c_id e)"
  shows "unread_count e =
           (case q3 (map pd_conversation_id pd) of
              None \<Rightarrow> 0
            | Some ms \<Rightarrow>
                (case pd_last_read_at p of
                   Some t \<Rightarrow>
                     length (filter (\<lambda>m. m_conversation_id m = c_id e \<and>
                               date_getTime t < date_getTime (m_created_at m)) ms)
                 | None \<Rightarrow> length (filter (\<lambda>m. m_conversation_id m = c_id e) ms)))"
proof -
  from assms(1,2) obtain p' where p': "p' \<in> set pd"
    and d: "conversation_details (q2 (map pd_conversation_id pd))
              (q3 (map pd_conversation_id pd)) p' = Some e"
    by (rule loadConversations_of_entry)
  from d obtain conv where conv: "pd_conversations p' = Some conv" "c_id e = c_id conv"
    "c_created_at e = c_created_at conv"
    "last_message e =
       (case q3 (map pd_conversation_id pd) of
          Some ms \<Rightarrow> find (\<lambda>m. m_conversation_id m = c_id conv) ms | None \<Rightarrow> None)"
    "unread_count e =
       (case q3 (map pd_conversation_id pd) of
          Some ms \<Rightarrow>
            length (filter (\<lambda>m. m_conversation_id m = c_id conv \<and>
                      (case pd_last_read_at p' of
                         None \<Rightarrow> True
                       | Some t \<Rightarrow> date_getTime (m_created_at m) > date_getTime t)) ms)
        | None \<Rightarrow> 0)"
    by (rule details_fields)
  from assms(3) have "inj_on (\<lambda>p. map_option c_id (pd_conversations p)) (set pd)"
    by (simp add: distinct_map)
  moreover have "map_option c_id (pd_conversations p') = map_option c_id (pd_conversations p)"
  proof -
    from conv(1,2) have "map_option c_id (pd_conversations p') = Some (c_id e)" by simp
    with assms(5) show ?thesis by (simp only:)
  qed
  ultimately have "p' = p" using p' assms(4) by (rule inj_onD)
  with conv(2,5) show ?thesis
    by (cases "q3 (map pd_conversation_id pd)"; cases "pd_last_read_at p") simp_all
qed

lemma example_loadConversations:
  "\<exists>e1 e2. loadConversations_of (Some example_participantData) example_allParticipants
              example_lastMessages = Some [e1, e2] \<and>
     c_id e1 = 11 \<and> last_message e1 = None \<and> unread_count e1 = 0 \<and>
     c_created_at e1 = 2000000 \<and>
     c_id e2 = 10 \<and> unread_count e2 = 1 \<and>
     last_message e2 = Some (example_message_at 31 2 1600000)"
  by (simp add: loadConversations_of_def conversation_details_def example_participantData_def
        example_allParticipants_def example_lastMessages_def example_conversation_def
        example_message_at_def date_getTime_def sort_by_def compare_time_def sort_time_def)

theorem unread_count_counts_later_dates_witness:
  "\<exists>e1 e2. loadConversations_of (Some example_participantData) example_allParticipants
              example_lastMessages = Some [e1, e2] \<and>
     c_id e2 = 10 \<and>
     unread_count e2 =
       length (filter (\<lambda>m. m_conversation_id m = 10 \<and>
                 date_getTime 1500000 < date_getTime (m_created_at m))
                 [example_message_at 31 2 1600000, example_message_at 30 2 1400000]) \<and>
     unread_count e2 = 1 \<and>
     c_id e1 = 11 \<and>
     unread_count e1 =
       length (filter (\<lambda>m. m_conversation_id m = 11)
                 [example_message_at 31 2 1600000, example_message_at 30 2 1400000])"
proof -
  from example_loadConversations obtain e1 e2
    where l: "loadConversations_of (Some example_participantData) example_allParticipants
                example_lastMessages = Some [e1, e2]"
      and e: "c_id e1 = 11" "c_id e2 = 10" "unread_count e2 = 1"
    by blast
  let ?p2 = "\<lparr>pd_conversation_id = 10, pd_last_read_at = Some 1500000,
               pd_conversations = Some (example_conversation 10 Private 1000000)\<rparr>"
  let ?p1 = "\<lparr>pd_conversation_id = 11, pd_last_read_at = None,
               pd_conversations = Some (example_conversation 11 Group 2000000)\<rparr>"
  have d: "distinct (map (\<lambda>p. map_option c_id (pd_conversations p)) example_participantData)"
    by (simp add: example_participantData_def example_conversation_def)
  have m: "?p2 \<in> set example_participantData" "?p1 \<in> set example_participantData"
    by (simp_all add: example_participantData_def)
  have "unread_count e2 =
      length (filter (\<lambda>m. m_conversation_id m = 10 \<and>
                date_getTime 1500000 < date_getTime (m_created_at m))
                [example_message_at 31 2 1600000, example_message_at 30 2 1400000])"
    using unread_count_counts_later_dates [OF l _ d m(1), of e2] e
    by (simp add: example_lastMessages_def example_conversation_def)
  moreover have "unread_count e1 =
      length (filter (\<lambda>m. m_conversation_id m = 11)
                [example_message_at 31 2 1600000, example_message_at 30 2 1400000])"
    using unread_count_counts_later_dates [OF l _ d m(2), of e1] e
    by (simp add: example_lastMessages_def example_conversation_def)
  ultimately show ?thesis using l e by auto
qed

text \<open>
  C5, read to the stored instant. Two conversations without messages, created 800
  microseconds apart in one millisecond, compare equal and keep the order of
  \<open>participantData\<close>: the earlier one comes first, and the list is not in descending order
  of \<open>created_at\<close>.
\<close>

theorem loadConversations_keeps_same_millisecond_order:
  "map_option (map c_created_at)
     (loadConversations_of (Some close_conversations) example_allParticipants
        no_lastMessages) = Some [1000100, 1000900] \<and>
   map_option (map last_message)
     (loadConversations_of (Some close_conversations) example_allParticipants
        no_lastMessages) = Some [None, None] \<and>
   \<not> sorted_wrt (\<lambda>a b. b \<le> a) [1000100, 1000900 :: int]"
  by (simp add: loadConversations_of_def conversation_details_def close_conversations_def
        no_lastMessages_def example_allParticipants_def example_conversation_def
        date_getTime_def sort_by_def compare_time_def sort_time_def)

text \<open>
  C5, as the code has it. Whatever the responses, the list \<open>loadConversations\<close> sets is in
  descending order of the millisecond \<open>new Date\<close> reads from the key: \<open>created_at\<close> of the
  entry's last message when it has one, else the conversation's own \<open>created_at\<close>. The
  last message of an entry is the first message of its conversation in the response
  \<open>lastMessages\<close>, which the request asks for newest first.
\<close>

theorem loadConversations_sorted_by_date:
  assumes "loadConversations_of (Some pd) q2 q3 = Some cs"
  shows "sorted_wrt (\<lambda>a b.
           date_getTime (case last_message b of Some m \<Rightarrow> m_created_at m
                         | None \<Rightarrow> c_created_at b) \<le>
           date_getTime (case last_message a of Some m \<Rightarrow> m_created_at m
                         | None \<Rightarrow> c_created_at a)) cs \<and>
         (\<forall>e \<in> set cs.
            last_message e =
              (case q3 (map pd_conversation_id pd) of
                 Some ms \<Rightarrow> find (\<lambda>m. m_conversation_id m = c_id e) ms
               | None \<Rightarrow> None))"
proof
  from assms obtain ds where "cs = sort_by compare_time ds"
    by (auto simp: loadConversations_of_def Let_def)
  then show "sorted_wrt (\<lambda>a b.
           date_getTime (case last_message b of Some m \<Rightarrow> m_created_at m
                         | None \<Rightarrow> c_created_at b) \<le>
           date_getTime (case last_message a of Some m \<Rightarrow> m_created_at m
                         | None \<Rightarrow> c_created_at a)) cs"
    using sorted_sort_by_time [of ds] by (simp add: sort_time_def)
next
  show "\<forall>e \<in> set cs.
            last_message e =
              (case q3 (map pd_conversation_id pd) of
                 Some ms \<Rightarrow> find (\<lambda>m. m_conversation_id m = c_id e) ms
               | None \<Rightarrow> None)"
  proof
    fix e assume "e \<in> set cs"
    with assms obtain p where "p \<in> set pd"
      and d: "conversation_details (q2 (map pd_conversation_id pd))
                (q3 (map pd_conversation_id pd)) p = Some e"
      by (rule loadConversations_of_entry)
    from d obtain conv where conv: "pd_conversations p = Some conv" "c_id e = c_id conv"
      "c_created_at e = c_created_at conv"
      "last_message e =
         (case q3 (map pd_conversation_id pd) of
            Some ms \<Rightarrow> find (\<lambda>m. m_conversation_id m = c_id conv) ms | None \<Rightarrow> None)"
      "unread_count e =
         (case q3 (map pd_conversation_id pd) of
            Some ms \<Rightarrow>
              length (filter (\<lambda>m. m_conversation_id m = c_id conv \<and>
                        (case pd_last_read_at p of
                           None \<Rightarrow> True
                         | Some t \<Rightarrow> date_getTime (m_created_at m) > date_getTime t)) ms)
          | None \<Rightarrow> 0)"
      by (rule details_fields)
    from conv(2,4) show "last_message e =
        (case q3 (map pd_conversation_id pd) of
           Some ms \<Rightarrow> find (\<lambda>m. m_conversation_id m = c_id e) ms
         | None \<Rightarrow> None)"
      by (cases "q3 (map pd_conversation_id pd)") simp_all
  qed
qed

theorem loadConversations_sorted_by_date_witness:
  "\<exists>e1 e2. loadConversations_of (Some example_participantData) example_allParticipants
              example_lastMessages = Some [e1, e2] \<and>
     map pd_conversation_id example_participantData = [10, 11] \<and>
     c_id e1 = 11 \<and> c_id e2 = 10 \<and>
     last_message e1 = None \<and> c_created_at e1 = 2000000 \<and>
     last_message e2 = Some (example_message_at 31 2 1600000) \<and>
     date_getTime (case last_message e2 of Some m \<Rightarrow> m_created_at m
                   | None \<Rightarrow> c_created_at e2) \<le>
     date_getTime (case last_message e1 of Some m \<Rightarrow> m_created_at m
                   | None \<Rightarrow> c_created_at e1)"
proof -
  from example_loadConversations obtain e1 e2
    where l: "loadConversations_of (Some example_participantData) example_allParticipants
                example_lastMessages = Some [e1, e2]"
      and e: "c_id e1 = 11" "c_id e2 = 10" "last_message e1 = None" "c_created_at e1 = 2000000"
        "last_message e2 = Some (example_message_at 31 2 1600000)"
    by blast
  have "map pd_conversation_id example_participantData = [10, 11]"
    by (simp add: example_participantData_def)
  with loadConversations_sorted_by_date [OF l, THEN conjunct1] l e show ?thesis by simp
qed

text \<open>
  C6. A conversation without messages has, in the list \<open>loadConversations\<close> sets from the
  responses to its requests, an entry with no \<open>last_message\<close> and \<open>unread_count\<close> 0: the
  response \<open>lastMessages\<close>, when it has data, holds messages of the table only.
\<close>

theorem no_messages_no_last_message:
  assumes "loadConversations_of (Some pd) q2 q3 = Some cs" and "e \<in> set cs"
    and "\<forall>m \<in> set (messages db). m_conversation_id m \<noteq> c_id e"
    and "\<forall>ms. q3 (map pd_conversation_id pd) = Some ms \<longrightarrow> set ms \<subseteq> set (messages db)"
  shows "last_message e = None \<and> unread_count e = 0"
proof -
  from assms(1,2) obtain p where "p \<in> set pd"
    and d: "conversation_details (q2 (map pd_conversation_id pd))
              (q3 (map pd_conversation_id pd)) p = Some e"
    by (rule loadConversations_of_entry)
  from d obtain conv where conv: "pd_conversations p = Some conv" "c_id e = c_id conv"
    "c_created_at e = c_created_at conv"
    "last_message e =
       (case q3 (map pd_conversation_id pd) of
          Some ms \<Rightarrow> find (\<lambda>m. m_conversation_id m = c_id conv) ms | None \<Rightarrow> None)"
    "unread_count e =
       (case q3 (map pd_conversation_id pd) of
          Some ms \<Rightarrow>
            length (filter (\<lambda>m. m_conversation_id m = c_id conv \<and>
                      (case pd_last_read_at p of
                         None \<Rightarrow> True
                       | Some t \<Rightarrow> date_getTime (m_created_at m) > date_getTime t)) ms)
        | None \<Rightarrow> 0)"
    by (rule details_fields)
  show ?thesis
  proof (cases "q3 (map pd_conversation_id pd)")
    case None
    with conv(4,5) show ?thesis by simp
  next
    case (Some ms)
    with assms(3,4) have none: "\<forall>m \<in> set ms. m_conversation_id m \<noteq> c_id e" by blast
    from Some conv(2,4) none have "last_message e = None" by (simp add: find_None_iff)
    moreover from Some conv(2,5) none have "unread_count e = 0"
      by (simp add: filter_empty_conv)
    ultimately show ?thesis ..
  qed
qed

theorem no_messages_no_last_message_witness:
  "\<exists>e1 e2. loadConversations_of (Some example_participantData) example_allParticipants
              example_lastMessages = Some [e1, e2] \<and>
     c_id e1 = 11 \<and>
     filter (\<lambda>m. m_conversation_id m = 11) (messages example_store) = [] \<and>
     example_lastMessages [10, 11] = Some (rev (messages example_store)) \<and>
     last_message e1 = None \<and> unread_count e1 = 0"
proof -
  from example_loadConversations obtain e1 e2
    where l: "loadConversations_of (Some example_participantData) example_allParticipants
                example_lastMessages = Some [e1, e2]"
      and e: "c_id e1 = 11"
    by blast
  from e have n: "\<forall>m \<in> set (messages example_store). m_conversation_id m \<noteq> c_id e1"
    by (simp add: example_store_def example_message_at_def)
  have r: "\<forall>ms. example_lastMessages (map pd_conversation_id example_participantData) = Some ms
             \<longrightarrow> set ms \<subseteq> set (messages example_store)"
    by (auto simp: example_lastMessages_def example_store_def)
  have "filter (\<lambda>m. m_conversation_id m = 11) (messages example_store) = []"
    "example_lastMessages [10, 11] = Some (rev (messages example_store))"
    by (simp_all add: example_store_def example_message_at_def example_lastMessages_def)
  with no_messages_no_last_message [OF l _ n r] l e show ?thesis by simp
qed

section \<open>Properties of the composer\<close>

text \<open>
  With its search answered, \<open>handleCreatePrivateChat\<close> reports the conversation the loop
  finds and sends no insert.
\<close>

lemma handleCreatePrivateChat_on_found:
  assumes "find_existing participants_of contactId convs = Some c"
  shows "handleCreatePrivateChat_on (Some convs) participants_of insert_conv insert_parts
           currentUser contactId db = (Some c, db)"
  using assms by (simp add: handleCreatePrivateChat_on_def)

text \<open>
  C8. On the store of this repository the search of \<open>handleCreatePrivateChat\<close> fails and
  the insert of the conversation is rejected. User 1 has the private conversation 10
  with its contact 2, and the handler reports nothing; user 1 has no private conversation
  with its contact 3, and the handler creates none. Neither a conversation nor a
  participant row is ever added.
\<close>

theorem handleCreatePrivateChat_reports_and_creates_nothing:
  "has_contact example_store 1 2 \<and> private_chat_with example_store 1 2 10 \<and>
   select_existingConv 1 example_store = None \<and>
   handleCreatePrivateChat 1 2 example_store = (None, example_store\<lparr>next_uuid := 201\<rparr>) \<and>
   has_contact example_store 1 3 \<and> \<not> (\<exists>c. private_chat_with example_store 1 3 c) \<and>
   fst (insert_conversation 1 Private None 1 example_store) = Inl InfiniteRecursion \<and>
   handleCreatePrivateChat 1 3 example_store = (None, example_store\<lparr>next_uuid := 201\<rparr>)"
proof -
  have "\<not> (\<exists>c. private_chat_with example_store 1 3 c)"
    by (auto simp: private_chat_with_def example_store_def)
  moreover have "has_contact example_store 1 2" "has_contact example_store 1 3"
    "private_chat_with example_store 1 2 10"
    by (simp_all add: has_contact_def private_chat_with_def example_store_def
          example_conversation_def)
  moreover have "next_uuid example_store = 200" by (simp add: example_store_def)
  ultimately show ?thesis
    by (simp add: handleCreatePrivateChat_creates_nothing requests_fail
          insert_conversation_fails)
qed



end
